theory Spec2Isabelle
  imports Main
begin

section \<open>The runtime provisioning scripts of qbrt\<close>

text \<open>
  The model follows \<^verbatim>\<open>bin/postinstall.js\<close>, its unnamed near-duplicate
  (\<^verbatim>\<open>unnamed/part_000\<close>, called the older script below) and
  \<^verbatim>\<open>bin/postinstall-xulapp.js\<close>.

  Conventions. A JavaScript \<^verbatim>\<open>undefined\<close> is \<open>None\<close>. A path is the list of its
  components below the package root (\<^verbatim>\<open>path.join(__dirname, '..')\<close>). A thrown or
  rejected error is a value of type \<open>error\<close>. What the operating system, the network and
  the third-party libraries answer is an input of the model, except where the call as
  the script writes it decides the answer.
\<close>

subsection \<open>Errors, paths and promises\<close>

datatype error =
    Error string
  | ExitError string int
  | SyntaxError
  | TypeError string
  | ReferenceError string
  | AssertionError string
  | SystemError string

type_synonym path = "string list"

text \<open>
  The state of a promise. \<open>settle\<close> is what calling \<^verbatim>\<open>resolve\<close> or \<^verbatim>\<open>reject\<close> does:
  only the first call has an effect.
\<close>

datatype 'a promise = Pending | Fulfilled 'a | Rejected error

definition settle :: "'a promise \<Rightarrow> 'a promise \<Rightarrow> 'a promise" where
  "settle p new = (case p of Pending \<Rightarrow> new | Fulfilled v \<Rightarrow> Fulfilled v | Rejected e \<Rightarrow> Rejected e)"

text \<open>JavaScript truthiness of a value that is a string or \<^verbatim>\<open>undefined\<close>.\<close>

definition truthy :: "string option \<Rightarrow> bool" where
  "truthy v = (case v of None \<Rightarrow> False | Some s \<Rightarrow> s \<noteq> [])"

text \<open>\<^verbatim>\<open>table[key]\<close> on an object literal: an \<^verbatim>\<open>undefined\<close> key reads the property
  named \<^verbatim>\<open>"undefined"\<close>.\<close>

definition property :: "(string \<times> string) list \<Rightarrow> string option \<Rightarrow> string option" where
  "property table key = map_of table (case key of None \<Rightarrow> ''undefined'' | Some k \<Rightarrow> k)"

text \<open>\<^verbatim>\<open>a || b\<close> where \<open>b\<close> is a string.\<close>

definition or_else :: "string option \<Rightarrow> string \<Rightarrow> string" where
  "or_else a b = (case a of None \<Rightarrow> b | Some s \<Rightarrow> if s = [] then b else s)"

text \<open>A value interpolated into a template string.\<close>

definition interpolate :: "string option \<Rightarrow> string" where
  "interpolate v = (case v of None \<Rightarrow> ''undefined'' | Some s \<Rightarrow> s)"

subsection \<open>Observable actions\<close>

datatype message =
    SettingUp | Checking | AlreadyLatest | NewVersion | CheckFailed
  | Downloading | DownloadDone | DownloadFailed
  | Installing | SetupDone | SetupFailed

datatype event =
    Spinner message
  | ConsoleLog
  | ConsoleWarn error
  | ConsoleError error
  | EnsureDirSync path
  | MkdtempSync
  | ReadFile path
  | HttpsGet string
  | Request string
  | CreateWriteStream path
  | WriteFile path
  | StreamEnd
  | RemoveAsync path
  | RemoveSync "path option"
  | Decompress "path option" path
  | Rename path path
  | HdiutilAttach "path option" path
  | HdiutilDetach path
  | CopySync path path
  | EnsureDir path
  | Copy path path
  | ExtractZip path path
  | PlistRead path
  | PlistWrite path
  | AppendFileSync path
  | RmdirSync path
  | ProcessExit

text \<open>Filesystem and network actions, as opposed to writes to the terminal.\<close>

fun is_fs_event :: "event \<Rightarrow> bool" where
  "is_fs_event (EnsureDirSync p) = True"
| "is_fs_event MkdtempSync = True"
| "is_fs_event (ReadFile p) = True"
| "is_fs_event (CreateWriteStream p) = True"
| "is_fs_event (WriteFile p) = True"
| "is_fs_event (RemoveAsync p) = True"
| "is_fs_event (RemoveSync p) = True"
| "is_fs_event (Decompress s d) = True"
| "is_fs_event (Rename a b) = True"
| "is_fs_event (CopySync a b) = True"
| "is_fs_event (EnsureDir p) = True"
| "is_fs_event (Copy a b) = True"
| "is_fs_event (ExtractZip a b) = True"
| "is_fs_event (PlistRead p) = True"
| "is_fs_event (PlistWrite p) = True"
| "is_fs_event (AppendFileSync p) = True"
| "is_fs_event (RmdirSync p) = True"
| "is_fs_event e = False"

fun is_net_event :: "event \<Rightarrow> bool" where
  "is_net_event (HttpsGet u) = True"
| "is_net_event (Request u) = True"
| "is_net_event e = False"

subsection \<open>Platform constants (postinstall.js lines 33-88)\<close>

definition DOWNLOAD_LOCALE :: string where
  "DOWNLOAD_LOCALE = ''en-US''"

text \<open>
  The immediately invoked function of lines 34-57. Its inner switches throw on an
  unknown architecture; the outer switch has no default, so any other platform falls
  out of it and the function returns \<^verbatim>\<open>undefined\<close>.
\<close>

definition DOWNLOAD_OS :: "string \<Rightarrow> string \<Rightarrow> error + string option" where
  "DOWNLOAD_OS platform arch =
     (if platform = ''win32'' then
        (if arch = ''ia32'' then Inr (Some ''win'')
         else if arch = ''x64'' then Inr (Some ''win64'')
         else Inl (Error (''unsupported Windows architecture '' @ arch)))
      else if platform = ''linux'' then
        (if arch = ''ia32'' then Inr (Some ''linux'')
         else if arch = ''x64'' then Inr (Some ''linux64'')
         else Inl (Error (''unsupported Linux architecture '' @ arch)))
      else if platform = ''darwin'' then Inr (Some ''osx'')
      else Inr None)"

definition archive_0402_10 :: string where
  "archive_0402_10 =
     ''https://archive.mozilla.org/pub/firefox/nightly/2017/04/2017-04-02-10-01-59-mozilla-central/firefox-55.0a1.''"

definition archive_0402_03 :: string where
  "archive_0402_03 =
     ''https://archive.mozilla.org/pub/firefox/nightly/2017/04/2017-04-02-03-02-02-mozilla-central/firefox-55.0a1.''"

definition DOWNLOAD_INFO_URLS :: "(string \<times> string) list" where
  "DOWNLOAD_INFO_URLS =
     [(''linux'', archive_0402_10 @ DOWNLOAD_LOCALE @ ''.linux-i686.json''),
      (''linux64'', archive_0402_10 @ DOWNLOAD_LOCALE @ ''.linux-x86_64.json''),
      (''osx'', archive_0402_03 @ DOWNLOAD_LOCALE @ ''.mac.json''),
      (''win'', archive_0402_03 @ DOWNLOAD_LOCALE @ ''.win32.json''),
      (''win64'', archive_0402_03 @ DOWNLOAD_LOCALE @ ''.win64.json'')]"

definition DOWNLOAD_BIN_URLS :: "(string \<times> string) list" where
  "DOWNLOAD_BIN_URLS =
     [(''linux'', archive_0402_10 @ DOWNLOAD_LOCALE @ ''.linux-i686.tar.bz2''),
      (''linux64'', archive_0402_10 @ DOWNLOAD_LOCALE @ ''.linux-x86_64.tar.bz2''),
      (''mac'', archive_0402_03 @ DOWNLOAD_LOCALE @ ''.mac.dmg''),
      (''win'', archive_0402_03 @ DOWNLOAD_LOCALE @ ''.win32.installer.exe''),
      (''win64'', archive_0402_03 @ DOWNLOAD_LOCALE @ ''.win64.installer.exe'')]"

definition DOWNLOAD_INFO_URL :: "string option \<Rightarrow> string option" where
  "DOWNLOAD_INFO_URL os = property DOWNLOAD_INFO_URLS os"

definition DOWNLOAD_URL :: "string option \<Rightarrow> string" where
  "DOWNLOAD_URL os =
     or_else (property DOWNLOAD_BIN_URLS os)
       (''https://download.mozilla.org/?product=firefox-nightly-latest-ssl&lang='' @ DOWNLOAD_LOCALE
          @ ''&os='' @ interpolate os)"

definition distDir :: "string \<Rightarrow> path" where
  "distDir platform = [''dist'', platform]"

definition installDir :: "string \<Rightarrow> path" where
  "installDir platform =
     distDir platform @ [if platform = ''darwin'' then ''Runtime.app'' else ''runtime'']"

definition resourcesDir :: "string \<Rightarrow> path" where
  "resourcesDir platform =
     (if platform = ''darwin'' then installDir platform @ [''Contents'', ''Resources'']
      else installDir platform)"

definition executableDir :: "string \<Rightarrow> path" where
  "executableDir platform =
     (if platform = ''darwin'' then installDir platform @ [''Contents'', ''MacOS'']
      else installDir platform)"

definition runtimeInfo :: "string \<Rightarrow> path" where
  "runtimeInfo platform = distDir platform @ [''runtime-info.json'']"

definition browserJAR :: "string \<Rightarrow> path" where
  "browserJAR platform = resourcesDir platform @ [''browser'', ''omni.ja'']"

text \<open>
  The values of lines 34-82, resolved from \<^verbatim>\<open>process.platform\<close> and
  \<^verbatim>\<open>process.arch\<close>.
\<close>

record profile =
  download_os :: "string option"
  info_url :: "string option"
  bin_url :: string
  install_root :: path
  resources :: path
  executables :: path

definition populated :: "profile \<Rightarrow> bool" where
  "populated p =
     (download_os p \<noteq> None \<and> truthy (info_url p) \<and> bin_url p \<noteq> []
      \<and> install_root p \<noteq> [] \<and> resources p \<noteq> [] \<and> executables p \<noteq> [])"

text \<open>
  \<open>resolvePlatformProfile\<close> is the top of postinstall.js up to line 88: the pair of
  the actions performed so far and either the error thrown (which ends the process) or
  the constants. Nothing but \<^verbatim>\<open>require\<close> and constant definitions stands before
  line 90, so no action is recorded on either branch.
\<close>

definition resolvePlatformProfile :: "string \<Rightarrow> string \<Rightarrow> event list \<times> (error + profile)" where
  "resolvePlatformProfile platform arch =
     (case DOWNLOAD_OS platform arch of
        Inl e \<Rightarrow> ([], Inl e)
      | Inr os \<Rightarrow>
          ([], Inr \<lparr> download_os = os,
                     info_url = DOWNLOAD_INFO_URL os,
                     bin_url = DOWNLOAD_URL os,
                     install_root = installDir platform,
                     resources = resourcesDir platform,
                     executables = executableDir platform \<rparr>))"

text \<open>
  The older script (part_000 lines 33-95) creates the output directory and the temporary
  workspace and logs the latter before it computes \<^verbatim>\<open>DOWNLOAD_OS\<close>; its output
  directory has no per-platform level, and its info URL falls back to the empty string.
\<close>

definition DIST_DIR :: path where
  "DIST_DIR = [''dist'']"

definition installDir_old :: "string \<Rightarrow> path" where
  "installDir_old platform =
     DIST_DIR @ [if platform = ''darwin'' then ''Runtime.app'' else ''runtime'']"

definition resourcesDir_old :: "string \<Rightarrow> path" where
  "resourcesDir_old platform =
     (if platform = ''darwin'' then installDir_old platform @ [''Contents'', ''Resources'']
      else installDir_old platform)"

definition executableDir_old :: "string \<Rightarrow> path" where
  "executableDir_old platform =
     (if platform = ''darwin'' then installDir_old platform @ [''Contents'', ''MacOS'']
      else installDir_old platform)"

definition DOWNLOAD_INFO_PATH :: path where
  "DOWNLOAD_INFO_PATH = DIST_DIR @ [''firefox.json'']"

definition resolvePlatformProfile_old :: "string \<Rightarrow> string \<Rightarrow> event list \<times> (error + profile)" where
  "resolvePlatformProfile_old platform arch =
     (let done = [EnsureDirSync DIST_DIR, MkdtempSync, ConsoleLog] in
      case DOWNLOAD_OS platform arch of
        Inl e \<Rightarrow> (done, Inl e)
      | Inr os \<Rightarrow>
          (done, Inr \<lparr> download_os = os,
                       info_url = Some (or_else (DOWNLOAD_INFO_URL os) []),
                       bin_url = DOWNLOAD_URL os,
                       install_root = installDir_old platform,
                       resources = resourcesDir_old platform,
                       executables = executableDir_old platform \<rparr>))"

text \<open>
  The pairs the switch of \<^verbatim>\<open>DOWNLOAD_OS\<close> names: the two architectures of its
  Windows and Linux branches, and macOS (whose branch does not look at the
  architecture).
\<close>

definition supported :: "string \<Rightarrow> string \<Rightarrow> bool" where
  "supported platform arch =
     ((platform = ''win32'' \<and> (arch = ''ia32'' \<or> arch = ''x64''))
      \<or> (platform = ''linux'' \<and> (arch = ''ia32'' \<or> arch = ''x64''))
      \<or> platform = ''darwin'')"

subsection \<open>Redirect rewriting (postinstall.js lines 156-173)\<close>

definition endsWith :: "string \<Rightarrow> string \<Rightarrow> bool" where
  "endsWith s suffix =
     (length suffix \<le> length s \<and> drop (length s - length suffix) s = suffix)"

text \<open>
  \<^verbatim>\<open>location.replace(/\.installer\.exe$/, '.zip')\<close>: the pattern has no flags, so
  \<^verbatim>\<open>$\<close> matches at the end of the string only and at most one match exists.
\<close>

definition replace_installer_exe :: "string \<Rightarrow> string" where
  "replace_installer_exe location =
     (if endsWith location ''.installer.exe''
      then take (length location - length ''.installer.exe'') location @ ''.zip''
      else location)"

text \<open>Lines 159-165: the URL that \<^verbatim>\<open>download\<close> is called with for a redirect.\<close>

definition redirect_target :: "string \<Rightarrow> string \<Rightarrow> string" where
  "redirect_target platform location =
     (if platform = ''win32'' then replace_installer_exe location else location)"

record response =
  location :: "string option"
  content_type :: "string option"

text \<open>
  \<^verbatim>\<open>download(url)\<close>. The server is a function from the URL requested to a network
  error or a response. The source follows redirects without a bound, so the recursion
  takes fuel: the result is the list of URLs requested, and \<open>None\<close> when the fuel ran
  out before a response without a \<^verbatim>\<open>location\<close> header arrived.
\<close>

fun download :: "nat \<Rightarrow> string \<Rightarrow> (string \<Rightarrow> error + response) \<Rightarrow> string
    \<Rightarrow> string list \<times> (error + response) option" where
  "download 0 platform server url = ([], None)"
| "download (Suc n) platform server url =
     (case server url of
        Inl e \<Rightarrow> ([url], Some (Inl e))
      | Inr r \<Rightarrow>
          if truthy (location r)
          then (let (urls, res) = download n platform server (redirect_target platform (the (location r)))
                in (url # urls, res))
          else ([url], Some (Inr r)))"

subsection \<open>The version check (postinstall.js lines 100-134, part_000 lines 103-141)\<close>

text \<open>
  A build descriptor is a parsed JSON object. Its fields hold strings, as the spec's
  BuildDescriptor and the metadata documents do; a field the object lacks reads as
  \<^verbatim>\<open>undefined\<close>.
\<close>

type_synonym descriptor = "(string \<times> string) list"

definition field :: "descriptor \<Rightarrow> string \<Rightarrow> string option" where
  "field d name = map_of d name"

text \<open>\<^verbatim>\<open>a === b\<close> on two values that are strings or \<^verbatim>\<open>undefined\<close>.\<close>

fun strict_eq :: "string option \<Rightarrow> string option \<Rightarrow> bool" where
  "strict_eq None None = True"
| "strict_eq (Some a) (Some b) = (a = b)"
| "strict_eq a b = False"

text \<open>The condition of lines 120-121 (part_000 lines 127-128).\<close>

definition isUpToDate :: "descriptor \<Rightarrow> descriptor \<Rightarrow> bool" where
  "isUpToDate current old =
     (strict_eq (field current ''buildid'') (field old ''buildid'')
      \<and> strict_eq (field current ''target_alias'') (field old ''target_alias''))"

text \<open>
  What \<^verbatim>\<open>JSON.parse\<close> makes of a text: a thrown SyntaxError or an object. What
  \<^verbatim>\<open>fs.readFile\<close> hands its callback: an error, or data, given here by what
  \<^verbatim>\<open>JSON.parse(data)\<close> makes of them. What the metadata request yields: a network
  error, or a response, given here by what \<^verbatim>\<open>JSON.parse\<close> makes of its body.
\<close>

datatype parsed = Unparsable | Object descriptor

datatype stored_file = Unreadable error | Content parsed

datatype metadata = NetworkError error | Answer parsed

text \<open>
  \<^verbatim>\<open>JSON.parse(response)\<close> of postinstall.js line 114: the argument is the response
  object that \<^verbatim>\<open>https.get\<close> hands its callback, not the body. \<^verbatim>\<open>JSON.parse\<close>
  converts an argument that is not a string to one, an object without a
  \<^verbatim>\<open>toString\<close> of its own becomes \<^verbatim>\<open>[object Object]\<close>, and that is not JSON:
  the call throws, whatever the body holds. (The older script parses the body.)
\<close>

definition JSON_parse_response :: "parsed \<Rightarrow> parsed" where
  "JSON_parse_response body = Unparsable"

text \<open>
  The outcome of the first promise: its state (resolved with \<^verbatim>\<open>true\<close>,
  \<^verbatim>\<open>false\<close> or nothing), an exception thrown inside a callback of
  \<^verbatim>\<open>fs.readFile\<close> or of the request (nothing catches it there: it ends the
  process), the descriptor variable, and the actions the callbacks performed.
\<close>

record check_result =
  decision :: "bool option promise"
  uncaught :: "error option"
  currentInfo :: "descriptor option"
  actions :: "event list"

text \<open>
  The executor itself (lines 101-133) runs while the module is evaluated: it starts the
  read of the version record, or resolves at once when there is no info URL.
\<close>

definition check_executor :: "path \<Rightarrow> string option \<Rightarrow> event list" where
  "check_executor record_path url =
     (if truthy url then [Spinner Checking, ReadFile record_path] else [Spinner Checking])"

definition decision_at_startup :: "string option \<Rightarrow> bool option promise" where
  "decision_at_startup url = (if truthy url then Pending else Fulfilled None)"

text \<open>
  postinstall.js lines 104-129, the callbacks. A read error resolves with
  \<^verbatim>\<open>false\<close> and falls through to \<^verbatim>\<open>JSON.parse(data || '{}')\<close>, which then
  parses \<^verbatim>\<open>'{}'\<close>; data that were read are parsed as they are, outside of any
  \<^verbatim>\<open>try\<close>.
\<close>

definition checkForUpdate :: "string option \<Rightarrow> stored_file \<Rightarrow> metadata \<Rightarrow> check_result" where
  "checkForUpdate url stored remote =
     (if truthy url then
        (let p1 = (case stored of Unreadable e \<Rightarrow> Fulfilled (Some False) | Content c \<Rightarrow> Pending)
         in case (case stored of Unreadable e \<Rightarrow> Object [] | Content c \<Rightarrow> c) of
              Unparsable \<Rightarrow>
                \<lparr> decision = p1, uncaught = Some SyntaxError, currentInfo = Some [], actions = [] \<rparr>
            | Object oldFirefoxInfo \<Rightarrow>
                (case remote of
                   NetworkError e \<Rightarrow>
                     \<lparr> decision = settle p1 (Rejected e), uncaught = None,
                       currentInfo = Some [], actions = [HttpsGet (the url)] \<rparr>
                 | Answer body \<Rightarrow>
                     (case JSON_parse_response body of
                        Unparsable \<Rightarrow>
                          \<lparr> decision = settle p1 (Rejected SyntaxError), uncaught = None,
                            currentInfo = Some [], actions = [HttpsGet (the url)] \<rparr>
                      | Object current \<Rightarrow>
                          \<lparr> decision =
                              settle p1 (if isUpToDate current oldFirefoxInfo
                                         then Fulfilled (Some True) else Fulfilled None),
                            uncaught = None,
                            currentInfo = Some current, actions = [HttpsGet (the url)] \<rparr>)))
      else \<lparr> decision = Fulfilled None, uncaught = None, currentInfo = Some [], actions = [] \<rparr>)"

text \<open>
  part_000 lines 107-136. A read error is logged and the empty descriptor is used. A
  request error is logged and resolves with nothing, then \<^verbatim>\<open>JSON.parse(body)\<close> runs
  on an \<^verbatim>\<open>undefined\<close> body and throws.
\<close>

definition checkForUpdate_old :: "string option \<Rightarrow> stored_file \<Rightarrow> metadata \<Rightarrow> check_result" where
  "checkForUpdate_old url stored remote =
     (if truthy url then
        (let a1 = (case stored of Unreadable e \<Rightarrow> [ConsoleWarn e] | Content c \<Rightarrow> [])
         in case (case stored of Unreadable e \<Rightarrow> Object [] | Content c \<Rightarrow> c) of
              Unparsable \<Rightarrow>
                \<lparr> decision = Pending, uncaught = Some SyntaxError, currentInfo = None, actions = a1 \<rparr>
            | Object oldFirefoxInfo \<Rightarrow>
                (case remote of
                   NetworkError e \<Rightarrow>
                     \<lparr> decision = Fulfilled None, uncaught = Some SyntaxError,
                       currentInfo = None, actions = a1 @ [Request (the url), ConsoleWarn e] \<rparr>
                 | Answer Unparsable \<Rightarrow>
                     \<lparr> decision = Pending, uncaught = Some SyntaxError,
                       currentInfo = None, actions = a1 @ [Request (the url)] \<rparr>
                 | Answer (Object current) \<Rightarrow>
                     \<lparr> decision =
                         (if isUpToDate current oldFirefoxInfo
                          then Fulfilled (Some True) else Fulfilled None),
                       uncaught = None,
                       currentInfo = Some current, actions = a1 @ [Request (the url)] \<rparr>))
      else \<lparr> decision = Fulfilled None, uncaught = None, currentInfo = None, actions = [] \<rparr>)"

subsection \<open>The filesystem\<close>

text \<open>
  The files of the disk, as an association list from paths to contents; the first entry
  for a path is the file's content. Directories exist through the files below them.
\<close>

type_synonym fs = "(path \<times> string) list"

definition lookup :: "fs \<Rightarrow> path \<Rightarrow> string option" where
  "lookup files p = map_of files p"

definition under :: "path \<Rightarrow> path \<Rightarrow> bool" where
  "under root p = (take (length root) p = root)"

definition exists_under :: "path \<Rightarrow> fs \<Rightarrow> bool" where
  "exists_under root files = list_ex (\<lambda>(p, c). under root p) files"

text \<open>The tree below a directory: contents by the path relative to it.\<close>

definition tree :: "path \<Rightarrow> fs \<Rightarrow> path \<Rightarrow> string option" where
  "tree root files = (\<lambda>rel. lookup files (root @ rel))"

text \<open>\<^verbatim>\<open>fs.remove\<close>, \<^verbatim>\<open>fs.removeSync\<close>: the path and everything below it goes; a path
  that does not exist is no error.\<close>

definition removeF :: "path \<Rightarrow> fs \<Rightarrow> fs" where
  "removeF root files = filter (\<lambda>(p, c). \<not> under root p) files"

text \<open>Writing the entries of an archive or of a directory below \<open>dest\<close>, in order, a
  later entry over an earlier one and over what is on disk; other files stay.\<close>

definition write_entries :: "(path \<times> string) list \<Rightarrow> path \<Rightarrow> fs \<Rightarrow> fs" where
  "write_entries entries dest files = rev (map (\<lambda>(rel, c). (dest @ rel, c)) entries) @ files"

text \<open>
  \<^verbatim>\<open>decompress(input, output)\<close> of the decompress package: it rejects with a
  TypeError when the input is neither a string nor a buffer, and with the error of the
  read or of the plugin when the file cannot be read or expanded; otherwise it writes
  the entries its plugins read from the file (none, when no plugin knows the format).
\<close>

definition decompress ::
    "path option \<Rightarrow> error option \<Rightarrow> (path \<times> string) list \<Rightarrow> path \<Rightarrow> fs \<Rightarrow> error + fs" where
  "decompress input failure entries output files =
     (case input of
        None \<Rightarrow> Inl (TypeError ''Input file required'')
      | Some src \<Rightarrow>
          (case failure of
             Some e \<Rightarrow> Inl e
           | None \<Rightarrow> Inr (write_entries entries output files)))"

definition reroot :: "path \<Rightarrow> path \<Rightarrow> path \<Rightarrow> path" where
  "reroot old new p = (if under old p then new @ drop (length old) p else p)"

text \<open>\<^verbatim>\<open>fs.rename\<close>, \<^verbatim>\<open>fs.renameSync\<close> of a directory: the source must exist, and the
  target must not hold anything.\<close>

definition renameF :: "path \<Rightarrow> path \<Rightarrow> fs \<Rightarrow> error + fs" where
  "renameF old new files =
     (if \<not> exists_under old files then Inl (SystemError ''ENOENT'')
      else if exists_under new files then Inl (SystemError ''ENOTEMPTY'')
      else Inr (map (\<lambda>(p, c). (reroot old new p, c)) files))"

text \<open>\<^verbatim>\<open>fs.copySync(source, destination)\<close> of a directory of the mounted volume, whose
  files are given relative to the mount point.\<close>

definition copy_from_volume :: "(path \<times> string) list \<Rightarrow> path \<Rightarrow> path \<Rightarrow> fs \<Rightarrow> error + fs" where
  "copy_from_volume volume source destination files =
     (if \<not> exists_under source volume then Inl (SystemError ''ENOENT'')
      else Inr (write_entries
                  (map (\<lambda>(p, c). (drop (length source) p, c))
                     (filter (\<lambda>(p, c). under source p) volume))
                  destination files))"

subsection \<open>The install step (postinstall.js lines 201-272)\<close>

text \<open>How a spawned process ends: the \<^verbatim>\<open>error\<close> event, or the \<^verbatim>\<open>exit\<close> event with a
  code, or with \<^verbatim>\<open>null\<close> after a signal.\<close>

datatype exit_status = SpawnFailed error | Exited int | Signalled

text \<open>
  What the install step meets: whether removing the existing tree fails, whether reading
  or expanding the downloaded archive fails, the entries of the archive, how the two
  disk-image commands end, and the files of the mounted volume.
\<close>

record install_io =
  remove_error :: "error option"
  decompress_error :: "error option"
  entries :: "(path \<times> string) list"
  attach :: exit_status
  detach :: exit_status
  volume :: "(path \<times> string) list"

text \<open>
  The outcome of the function passed to \<^verbatim>\<open>new Promise\<close> at line 201: what it did
  before it returned, what the chain it returned did afterwards, the files then, the
  exception it threw (if any) and the state of the chain it returned (if any). The
  function declares no \<^verbatim>\<open>resolve\<close> and no \<^verbatim>\<open>reject\<close> parameter.
\<close>

record install_result =
  at_once :: "event list"
  afterwards :: "event list"
  files_after :: fs
  thrown :: "error option"
  returned :: "unit promise option"

definition install_win32 :: "path \<Rightarrow> path option \<Rightarrow> install_io \<Rightarrow> fs \<Rightarrow> install_result" where
  "install_win32 destination source io files =
     (let target = destination @ [''runtime''];
          begun = [Spinner Installing, RemoveAsync target]
      in case remove_error io of
           Some e \<Rightarrow> \<lparr> at_once = begun, afterwards = [], files_after = files,
                       thrown = None, returned = Some (Rejected e) \<rparr>
         | None \<Rightarrow>
             (case decompress source (decompress_error io) (entries io) destination (removeF target files) of
                Inl e \<Rightarrow> \<lparr> at_once = begun, afterwards = [Decompress source destination],
                           files_after = removeF target files,
                           thrown = None, returned = Some (Rejected e) \<rparr>
              | Inr expanded \<Rightarrow>
                  (case renameF (destination @ [''firefox'']) target expanded of
                     Inl e \<Rightarrow> \<lparr> at_once = begun,
                                afterwards = [Decompress source destination,
                                              Rename (destination @ [''firefox'']) target],
                                files_after = expanded,
                                thrown = None, returned = Some (Rejected e) \<rparr>
                   | Inr renamed \<Rightarrow>
                       \<lparr> at_once = begun,
                         afterwards = [Decompress source destination,
                                       Rename (destination @ [''firefox'']) target],
                         files_after = renamed,
                         thrown = None, returned = Some (Fulfilled ()) \<rparr>)))"

definition install_linux :: "path \<Rightarrow> path option \<Rightarrow> install_io \<Rightarrow> fs \<Rightarrow> install_result" where
  "install_linux destination source io files =
     (let target = destination @ [''runtime'']
      in case remove_error io of
           Some e \<Rightarrow> \<lparr> at_once = [Spinner Installing, RemoveSync (Some target)], afterwards = [], files_after = files,
                       thrown = Some e, returned = None \<rparr>
         | None \<Rightarrow>
             (let begun = [Spinner Installing, RemoveSync (Some target), Decompress source destination]
              in case decompress source (decompress_error io) (entries io) destination (removeF target files) of
                   Inl e \<Rightarrow> \<lparr> at_once = begun, afterwards = [],
                              files_after = removeF target files,
                              thrown = None, returned = Some (Rejected e) \<rparr>
                 | Inr expanded \<Rightarrow>
                     (case renameF (destination @ [''firefox'']) target expanded of
                        Inl e \<Rightarrow> \<lparr> at_once = begun,
                                   afterwards = [Rename (destination @ [''firefox'']) target],
                                   files_after = expanded,
                                   thrown = None, returned = Some (Rejected e) \<rparr>
                      | Inr renamed \<Rightarrow>
                          \<lparr> at_once = begun,
                            afterwards = [Rename (destination @ [''firefox'']) target],
                            files_after = renamed,
                            thrown = None, returned = Some (Fulfilled ()) \<rparr>)))"

text \<open>Lines 257-260: the last callback of the macOS branch.\<close>

definition after_detach :: "exit_status \<Rightarrow> unit promise" where
  "after_detach status =
     (case status of
        SpawnFailed e \<Rightarrow> Rejected e
      | Exited code \<Rightarrow> if code \<noteq> 0 then Rejected (ExitError ''hdiutil detach'' code) else Fulfilled ()
      | Signalled \<Rightarrow> Fulfilled ())"

text \<open>Lines 232-256: what follows an attach that did not exit with a nonzero code.\<close>

definition copy_bundle :: "path \<Rightarrow> path \<Rightarrow> path option \<Rightarrow> install_io \<Rightarrow> fs \<Rightarrow> install_result" where
  "copy_bundle dist mountPoint source io files =
     (let destination = dist @ [''Runtime.app''];
          begun = [Spinner Installing, HdiutilAttach source mountPoint]
      in case remove_error io of
           Some e \<Rightarrow> \<lparr> at_once = begun, afterwards = [RemoveSync (Some destination)],
                       files_after = files, thrown = None, returned = Some (Rejected e) \<rparr>
         | None \<Rightarrow>
             (case copy_from_volume (volume io) [''FirefoxNightly.app''] destination
                     (removeF destination files) of
                Inl e \<Rightarrow> \<lparr> at_once = begun,
                           afterwards = [RemoveSync (Some destination),
                                         CopySync (mountPoint @ [''FirefoxNightly.app'']) destination],
                           files_after = removeF destination files,
                           thrown = None, returned = Some (Rejected e) \<rparr>
              | Inr copied \<Rightarrow>
                  \<lparr> at_once = begun,
                    afterwards = [RemoveSync (Some destination),
                                  CopySync (mountPoint @ [''FirefoxNightly.app'']) destination,
                                  HdiutilDetach mountPoint],
                    files_after = copied,
                    thrown = None, returned = Some (after_detach (detach io)) \<rparr>))"

definition install_darwin :: "path \<Rightarrow> path \<Rightarrow> path option \<Rightarrow> install_io \<Rightarrow> fs \<Rightarrow> install_result" where
  "install_darwin dist mountPoint source io files =
     (let begun = [Spinner Installing, HdiutilAttach source mountPoint]
      in case attach io of
           SpawnFailed e \<Rightarrow> \<lparr> at_once = begun, afterwards = [], files_after = files,
                              thrown = None, returned = Some (Rejected e) \<rparr>
         | Exited code \<Rightarrow>
             if code \<noteq> 0
             then \<lparr> at_once = begun, afterwards = [], files_after = files,
                    thrown = None, returned = Some (Rejected (ExitError ''hdiutil attach'' code)) \<rparr>
             else copy_bundle dist mountPoint source io files
         | Signalled \<Rightarrow> copy_bundle dist mountPoint source io files)"

text \<open>
  The function of lines 201-272: it branches on the platform, and does nothing but
  announce itself on any other. \<open>filePath\<close> is the variable of line 97 as it is when the
  function runs.
\<close>

definition installRuntime_executor ::
    "string \<Rightarrow> path \<Rightarrow> path option \<Rightarrow> install_io \<Rightarrow> fs \<Rightarrow> install_result" where
  "installRuntime_executor platform tempDir filePath io files =
     (if platform = ''win32'' then install_win32 (distDir platform) filePath io files
      else if platform = ''darwin''
      then install_darwin (distDir platform) (tempDir @ [''volume'']) filePath io files
      else if platform = ''linux'' then install_linux (distDir platform) filePath io files
      else \<lparr> at_once = [Spinner Installing], afterwards = [], files_after = files,
             thrown = None, returned = None \<rparr>)"

text \<open>
  \<^verbatim>\<open>new Promise(executor)\<close> for an executor that never calls \<^verbatim>\<open>resolve\<close> or
  \<^verbatim>\<open>reject\<close>: the promise is rejected when the executor throws, and stays pending
  otherwise, whatever the executor returns.
\<close>

definition promise_of_executor :: "install_result \<Rightarrow> unit promise" where
  "promise_of_executor r = (case thrown r of Some e \<Rightarrow> Rejected e | None \<Rightarrow> Pending)"

subsection \<open>The download (postinstall.js lines 153-199)\<close>

definition FILE_EXTENSIONS :: "(string \<times> string) list" where
  "FILE_EXTENSIONS =
     [(''application/x-apple-diskimage'', ''dmg''),
      (''application/zip'', ''zip''),
      (''application/x-tar'', ''tar.bz2'')]"

text \<open>How piping the response into the file ends: the stream's \<^verbatim>\<open>finish\<close> event, or
  the response's \<^verbatim>\<open>error\<close> event.\<close>

datatype stream_outcome = Finished | ResponseError error

text \<open>
  The promise \<^verbatim>\<open>downloadRuntime()\<close> returns, the actions performed, and the variables
  \<^verbatim>\<open>filePath\<close> and \<^verbatim>\<open>fileStream\<close> of lines 97-98 afterwards. The chain ends in a
  \<^verbatim>\<open>catch\<close>, so a failure is reported and the promise is fulfilled all the same.
\<close>

record download_result =
  downloaded :: "unit promise"
  download_actions :: "event list"
  filePath :: "path option"
  fileStream :: bool

definition downloadRuntime ::
    "string \<Rightarrow> path \<Rightarrow> path \<Rightarrow> string \<Rightarrow> nat \<Rightarrow> (string \<Rightarrow> error + response) \<Rightarrow> stream_outcome
     \<Rightarrow> download_result" where
  "downloadRuntime platform tempDir record_path url fuel server stream =
     (case download fuel platform server url of
        (urls, None) \<Rightarrow>
          \<lparr> downloaded = Pending,
            download_actions = Spinner Downloading # map HttpsGet urls,
            filePath = None, fileStream = False \<rparr>
      | (urls, Some (Inl e)) \<Rightarrow>
          \<lparr> downloaded = Fulfilled (),
            download_actions =
              Spinner Downloading # map HttpsGet urls @ [Spinner DownloadFailed, ConsoleError e],
            filePath = None, fileStream = False \<rparr>
      | (urls, Some (Inr r)) \<Rightarrow>
          (let file = tempDir @ [''runtime.'' @ interpolate (property FILE_EXTENSIONS (content_type r))]
           in case stream of
                Finished \<Rightarrow>
                  \<lparr> downloaded = Fulfilled (),
                    download_actions =
                      Spinner Downloading # map HttpsGet urls
                      @ [CreateWriteStream file, WriteFile record_path, Spinner DownloadDone],
                    filePath = Some file, fileStream = True \<rparr>
              | ResponseError e \<Rightarrow>
                  \<lparr> downloaded = Fulfilled (),
                    download_actions =
                      Spinner Downloading # map HttpsGet urls
                      @ [CreateWriteStream file, Spinner DownloadFailed, ConsoleError e, StreamEnd],
                    filePath = Some file, fileStream = True \<rparr>))"

subsection \<open>The first chain (postinstall.js lines 135-151)\<close>

text \<open>
  \<^verbatim>\<open>cli.spinner(prefix, end, stream)\<close> of the cli package: a stream that is not given
  is \<^verbatim>\<open>process.stdout\<close>; with a truthy \<^verbatim>\<open>end\<close> the call writes the prefix to the
  stream and stops the spinner, otherwise it starts one. The scripts call it with one
  argument or with \<^verbatim>\<open>(message, true)\<close> everywhere (the \<open>Spinner\<close> actions above and
  below), except at lines 137-138 and 142-143, where the descriptor is the second
  argument and \<^verbatim>\<open>true\<close> the third: the stream is then \<^verbatim>\<open>true\<close>, which has no
  \<^verbatim>\<open>write\<close>.
\<close>

datatype spinner_stream = NotGiven | TrueGiven

definition cli_spinner :: "message \<Rightarrow> bool \<Rightarrow> spinner_stream \<Rightarrow> error + event list" where
  "cli_spinner prefix ending given =
     (case given of
        NotGiven \<Rightarrow> Inr [Spinner prefix]
      | TrueGiven \<Rightarrow>
          if ending then Inl (TypeError ''stream.write is not a function'')
          else Inr [Spinner prefix])"

text \<open>
  Lines 137-138 and 142-143: the message is built from the fields of the descriptor
  variable (which throws when the variable is \<^verbatim>\<open>undefined\<close>, as it can be in the
  older script), then \<^verbatim>\<open>cli.spinner(message, descriptor, true)\<close> is called; an object
  is truthy.
\<close>

definition announce :: "message \<Rightarrow> descriptor option \<Rightarrow> error + event list" where
  "announce prefix info =
     (case info of
        None \<Rightarrow> Inl (TypeError ''Cannot read property buildid of undefined'')
      | Some d \<Rightarrow> cli_spinner prefix True TrueGiven)"

text \<open>
  The callbacks chained on the version check. An exception in the first callback rejects
  its promise. When line 147 is evaluated the variable \<^verbatim>\<open>installRuntime\<close> is declared
  (\<^verbatim>\<open>var\<close>) and not yet assigned, so \<^verbatim>\<open>.then(installRuntime)\<close> is
  \<^verbatim>\<open>.then(undefined)\<close> and passes its input on, be it a value or a rejection, to the
  \<^verbatim>\<open>catch\<close> of line 148. An exception that no callback caught has ended the process
  before any of this.
\<close>

definition first_chain :: "check_result \<Rightarrow> download_result \<Rightarrow> unit promise \<times> event list" where
  "first_chain c dl =
     (if uncaught c \<noteq> None then (Pending, actions c)
      else case decision c of
             Pending \<Rightarrow> (Pending, actions c)
           | Rejected e \<Rightarrow> (Fulfilled (), actions c @ [Spinner CheckFailed, ConsoleError e])
           | Fulfilled isRuntimeUpToDate \<Rightarrow>
               if isRuntimeUpToDate = Some True
               then (case announce AlreadyLatest (currentInfo c) of
                       Inl e \<Rightarrow> (Fulfilled (), actions c @ [Spinner CheckFailed, ConsoleError e])
                     | Inr shown \<Rightarrow> (Fulfilled (), actions c @ shown))
               else (case announce NewVersion (currentInfo c) of
                       Inl e \<Rightarrow> (Fulfilled (), actions c @ [Spinner CheckFailed, ConsoleError e])
                     | Inr shown \<Rightarrow> (downloaded dl, actions c @ shown @ download_actions dl)))"

subsection \<open>The companion application (postinstall-xulapp.js)\<close>

definition OPENVR_ENABLED :: bool where
  "OPENVR_ENABLED = True"

text \<open>The string constants the module declares (lines 26-31), by name. No other
  declaration of the module and no global of the runtime is named
  \<^verbatim>\<open>OPENVR_DLL_URL\<close>.\<close>

definition xulapp_constants :: "(string \<times> string) list" where
  "xulapp_constants =
     [(''OPENVR_URL'', ''https://github.com/ValveSoftware/openvr/raw/v1.0.6/bin/win64/openvr_api.dll'')]"

text \<open>Evaluating an identifier: its value, or a ReferenceError when nothing declares it.\<close>

definition reference :: "(string \<times> string) list \<Rightarrow> string \<Rightarrow> error + string" where
  "reference scope name =
     (case map_of scope name of None \<Rightarrow> Inl (ReferenceError name) | Some v \<Rightarrow> Inr v)"

definition xulapp_files :: "string list" where
  "xulapp_files =
     [''application.ini'', ''chrome'', ''chrome.manifest'', ''components'', ''defaults'',
      ''devtools.manifest'', ''modules'']"

text \<open>What the grafting meets: whether creating the target directory fails, which
  copies fail (by source path), and whether the library download fails.\<close>

record graft_io =
  ensureDir_error :: "error option"
  copy_error :: "path \<Rightarrow> error option"
  openvr_error :: "error option"

text \<open>
  \<^verbatim>\<open>exports.install\<close> (lines 33-75), with the feature flag as a parameter. All seven
  copies are started; \<^verbatim>\<open>Promise.all\<close> rejects when one of them fails (the model
  reports the first failure in the list's order). The last executor evaluates
  \<^verbatim>\<open>request(OPENVR_DLL_URL)\<close>; an exception in an executor rejects its promise.
\<close>

definition install :: "bool \<Rightarrow> string \<Rightarrow> graft_io \<Rightarrow> unit promise \<times> event list" where
  "install enabled platform io =
     (let targetDir = resourcesDir platform @ [''qbrt'']
      in case ensureDir_error io of
           Some e \<Rightarrow> (Rejected e, [EnsureDir targetDir])
         | None \<Rightarrow>
             (let copies = map (\<lambda>file. Copy [file] (targetDir @ [file])) xulapp_files
              in case List.find (\<lambda>file. copy_error io [file] \<noteq> None) xulapp_files of
                   Some file \<Rightarrow> (Rejected (the (copy_error io [file])), EnsureDir targetDir # copies)
                 | None \<Rightarrow>
                     if \<not> enabled then (Fulfilled (), EnsureDir targetDir # copies)
                     else (case reference xulapp_constants ''OPENVR_DLL_URL'' of
                             Inl e \<Rightarrow> (Rejected e, EnsureDir targetDir # copies)
                           | Inr url \<Rightarrow>
                               (case openvr_error io of
                                  Some e \<Rightarrow>
                                    (Rejected e,
                                     EnsureDir targetDir # copies
                                     @ [Request url, CreateWriteStream (targetDir @ [''openvr_api.dll''])])
                                | None \<Rightarrow>
                                    (Fulfilled (),
                                     EnsureDir targetDir # copies
                                     @ [Request url, CreateWriteStream (targetDir @ [''openvr_api.dll'']),
                                        AppendFileSync
                                          (targetDir @ [''defaults'', ''preferences'', ''prefs.js''])])))))"

subsection \<open>The second chain (postinstall.js lines 201-351)\<close>

text \<open>\<^verbatim>\<open>p.then(callback)\<close> and \<^verbatim>\<open>p.catch(callback)\<close>: a promise with the actions that
  led to it, and the callback given by what it does when it runs. A pending promise
  never runs a callback.\<close>

definition then_step ::
    "unit promise \<times> event list \<Rightarrow> unit promise \<times> event list \<Rightarrow> unit promise \<times> event list" where
  "then_step before callback =
     (case fst before of
        Fulfilled u \<Rightarrow> (fst callback, snd before @ snd callback)
      | Pending \<Rightarrow> before
      | Rejected e \<Rightarrow> before)"

definition catch_step ::
    "unit promise \<times> event list \<Rightarrow> (error \<Rightarrow> unit promise \<times> event list)
     \<Rightarrow> unit promise \<times> event list" where
  "catch_step before callback =
     (case fst before of
        Rejected e \<Rightarrow> (fst (callback e), snd before @ snd (callback e))
      | Pending \<Rightarrow> before
      | Fulfilled u \<Rightarrow> before)"

text \<open>Synchronous copies in order, up to the first that throws.\<close>

fun copy_all :: "(path \<Rightarrow> error option) \<Rightarrow> (path \<times> path) list \<Rightarrow> unit promise \<times> event list" where
  "copy_all failing [] = (Fulfilled (), [])"
| "copy_all failing ((source, target) # rest) =
     (case failing source of
        Some e \<Rightarrow> (Rejected e, [CopySync source target])
      | None \<Rightarrow> (fst (copy_all failing rest), CopySync source target # snd (copy_all failing rest)))"

text \<open>What the later steps meet.\<close>

record later_io =
  graft :: graft_io
  extract_error :: "error option"
  copySync_error :: "path \<Rightarrow> error option"
  plist_error :: "error option"
  cleanup_remove_error :: "error option"
  cleanup_rmdir_error :: "error option"

text \<open>Lines 276-290.\<close>

definition expand_jar :: "string \<Rightarrow> later_io \<Rightarrow> unit promise \<times> event list" where
  "expand_jar platform io =
     (case extract_error io of
        Some e \<Rightarrow> (Rejected e, [ExtractZip (browserJAR platform) (resourcesDir platform @ [''qbrt'', ''browser''])])
      | None \<Rightarrow> (Fulfilled (), [ExtractZip (browserJAR platform) (resourcesDir platform @ [''qbrt'', ''browser''])]))"

text \<open>Lines 291-305.\<close>

definition copy_prefs :: "string \<Rightarrow> later_io \<Rightarrow> unit promise \<times> event list" where
  "copy_prefs platform io =
     (let sourceDir = resourcesDir platform @ [''qbrt'', ''browser'', ''defaults'', ''preferences''];
          targetDir = resourcesDir platform @ [''qbrt'', ''defaults'', ''preferences'']
      in copy_all (copySync_error io)
           (map (\<lambda>file. (sourceDir @ [file], targetDir @ [file])) [''debugger.js'', ''devtools.js'']))"

text \<open>Lines 306-332.\<close>

definition launcher :: "string \<Rightarrow> later_io \<Rightarrow> unit promise \<times> event list" where
  "launcher platform io =
     (if platform = ''win32''
      then copy_all (copySync_error io) [([''launcher.bat''], executableDir platform @ [''launcher.bat''])]
      else if platform = ''darwin''
      then (case copySync_error io [''launcher.sh''] of
              Some e \<Rightarrow> (Rejected e, [CopySync [''launcher.sh''] (executableDir platform @ [''launcher.sh''])])
            | None \<Rightarrow>
                (case plist_error io of
                   Some e \<Rightarrow>
                     (Rejected e,
                      [CopySync [''launcher.sh''] (executableDir platform @ [''launcher.sh'']),
                       PlistRead (installDir platform @ [''Contents'', ''Info.plist''])])
                 | None \<Rightarrow>
                     (Fulfilled (),
                      [CopySync [''launcher.sh''] (executableDir platform @ [''launcher.sh'']),
                       PlistRead (installDir platform @ [''Contents'', ''Info.plist'']),
                       PlistWrite (installDir platform @ [''Contents'', ''Info.plist''])])))
      else if platform = ''linux''
      then copy_all (copySync_error io) [([''launcher.sh''], executableDir platform @ [''launcher.sh''])]
      else (Fulfilled (), []))"

text \<open>Lines 336-342.\<close>

definition setup_failed :: "bool \<Rightarrow> error \<Rightarrow> unit promise \<times> event list" where
  "setup_failed stream e =
     (Fulfilled (), [Spinner SetupFailed, ConsoleError e] @ (if stream then [StreamEnd] else []))"

text \<open>
  Lines 343-351, the clean-up: each call runs only when the one before it returned.
  \<^verbatim>\<open>fs.removeSync\<close> of fs-extra asserts that it is given a path, so it throws when
  \<^verbatim>\<open>filePath\<close> is \<^verbatim>\<open>undefined\<close>.
\<close>

definition cleanup :: "path option \<Rightarrow> path \<Rightarrow> later_io \<Rightarrow> unit promise \<times> event list" where
  "cleanup file tempDir io =
     (case file of
        None \<Rightarrow> (Rejected (AssertionError ''rimraf: missing path''), [RemoveSync None])
      | Some archive \<Rightarrow>
          (case cleanup_remove_error io of
             Some e \<Rightarrow> (Rejected e, [RemoveSync file])
           | None \<Rightarrow>
               (case cleanup_rmdir_error io of
                  Some e \<Rightarrow> (Rejected e, [RemoveSync file, RmdirSync tempDir])
                | None \<Rightarrow> (Fulfilled (), [RemoveSync file, RmdirSync tempDir, ProcessExit]))))"

text \<open>
  The chain of lines 273-351 on the promise of line 201. \<open>file\<close> and \<open>stream\<close> are the
  variables \<^verbatim>\<open>filePath\<close> and \<^verbatim>\<open>fileStream\<close> as they are when the callbacks run.
\<close>

definition second_chain ::
    "string \<Rightarrow> path \<Rightarrow> path option \<Rightarrow> bool \<Rightarrow> later_io \<Rightarrow> unit promise \<Rightarrow> unit promise \<times> event list" where
  "second_chain platform tempDir file stream io installed =
     then_step
       (catch_step
          (then_step
             (then_step
                (then_step
                   (then_step
                      (then_step (installed, []) (install OPENVR_ENABLED platform (graft io)))
                      (expand_jar platform io))
                   (copy_prefs platform io))
                (launcher platform io))
             (Fulfilled (), [Spinner SetupDone]))
          (setup_failed stream))
       (cleanup file tempDir io)"

subsection \<open>One run of postinstall.js\<close>

record world =
  process_platform :: string
  process_arch :: string
  temp_dir :: path
  disk :: fs
  version_record :: stored_file
  metadata_answer :: metadata
  binary_server :: "string \<Rightarrow> error + response"
  redirect_fuel :: nat
  pipe_outcome :: stream_outcome
  install_answers :: install_io
  later_answers :: later_io

text \<open>
  \<open>startup\<close>: the actions of the module's evaluation, in order, which ends before any
  callback runs. \<open>first_actions\<close>: the actions of the callbacks of the first chain.
  \<open>second_actions\<close>: the actions of the callbacks behind the install step and of the
  second chain. \<open>files_end\<close>: the files after the install step's effects. \<open>ended\<close>: the
  state of the promise the second chain ends in. \<open>dropped\<close>: the state of the chain
  the install function returned, which nothing is chained on. \<open>crashed\<close>: an
  exception nothing caught.

  The install function runs inside \<^verbatim>\<open>new Promise\<close> at line 201, during the module's
  evaluation: \<^verbatim>\<open>filePath\<close> and \<^verbatim>\<open>fileStream\<close> are still \<^verbatim>\<open>undefined\<close> then, and
  so they are when a rejection of that promise runs the second chain's callbacks, at
  the end of the module's evaluation.
\<close>

record run_result =
  startup :: "event list"
  first_actions :: "event list"
  second_actions :: "event list"
  files_end :: fs
  ended :: "unit promise"
  dropped :: "unit promise option"
  crashed :: "error option"

definition run :: "world \<Rightarrow> run_result" where
  "run w =
     (case resolvePlatformProfile (process_platform w) (process_arch w) of
        (before, Inl e) \<Rightarrow>
          \<lparr> startup = before, first_actions = [], second_actions = [], files_end = disk w,
            ended = Pending, dropped = None, crashed = Some e \<rparr>
      | (before, Inr prof) \<Rightarrow>
          (let executed = installRuntime_executor (process_platform w) (temp_dir w) None (install_answers w) (disk w);
               checked = checkForUpdate (info_url prof) (version_record w) (metadata_answer w);
               dl = downloadRuntime (process_platform w) (temp_dir w) (runtimeInfo (process_platform w))
                      (bin_url prof) (redirect_fuel w) (binary_server w) (pipe_outcome w);
               second = second_chain (process_platform w) (temp_dir w) None False (later_answers w)
                          (promise_of_executor executed)
           in \<lparr> startup =
                  before
                  @ [Spinner SettingUp, EnsureDirSync (distDir (process_platform w)), MkdtempSync]
                  @ check_executor (runtimeInfo (process_platform w)) (info_url prof)
                  @ at_once executed,
                first_actions = snd (first_chain checked dl),
                second_actions = afterwards executed @ snd second,
                files_end = files_after executed,
                ended = fst second,
                dropped = returned executed,
                crashed = uncaught checked \<rparr>))"

section \<open>Properties\<close>

subsection \<open>Redirect rewriting\<close>

lemma endsWith_iff: "endsWith s suffix \<longleftrightarrow> (\<exists>stem. s = stem @ suffix)"
proof
  assume h: "endsWith s suffix"
  then have "s = take (length s - length suffix) s @ suffix"
    unfolding endsWith_def by (metis append_take_drop_id)
  then show "\<exists>stem. s = stem @ suffix" ..
next
  assume "\<exists>stem. s = stem @ suffix"
  then show "endsWith s suffix" by (auto simp: endsWith_def)
qed

lemma replace_installer_exe_stem:
  "replace_installer_exe (stem @ ''.installer.exe'') = stem @ ''.zip''"
  by (simp add: replace_installer_exe_def endsWith_def)

text \<open>
  C3. For every redirect target met during the binary fetch: on Windows, a target that
  ends in \<^verbatim>\<open>.installer.exe\<close> is followed with that suffix replaced by \<^verbatim>\<open>.zip\<close>
  and every character before it kept; a target without that suffix, and any target on
  another platform, is followed unchanged. The last conjunct says that the URL
  \<open>download\<close> requests next is that rewritten target.
\<close>

theorem redirect_rewriting:
  "(endsWith loc ''.installer.exe'' \<longrightarrow>
      (\<exists>stem. loc = stem @ ''.installer.exe'' \<and> redirect_target ''win32'' loc = stem @ ''.zip''))
   \<and> (\<not> endsWith loc ''.installer.exe'' \<longrightarrow> redirect_target platform loc = loc)
   \<and> (platform \<noteq> ''win32'' \<longrightarrow> redirect_target platform loc = loc)
   \<and> (server url = Inr r \<and> location r = Some loc \<and> loc \<noteq> [] \<longrightarrow>
        download (Suc n) platform server url
        = (url # fst (download n platform server (redirect_target platform loc)),
           snd (download n platform server (redirect_target platform loc))))"
proof (intro conjI impI)
  assume "endsWith loc ''.installer.exe''"
  then obtain stem where s: "loc = stem @ ''.installer.exe''"
    using endsWith_iff by blast
  have "redirect_target ''win32'' loc = stem @ ''.zip''"
    unfolding s redirect_target_def by (simp add: replace_installer_exe_stem)
  with s show "\<exists>stem. loc = stem @ ''.installer.exe'' \<and> redirect_target ''win32'' loc = stem @ ''.zip''"
    by blast
next
  assume "\<not> endsWith loc ''.installer.exe''"
  then show "redirect_target platform loc = loc"
    by (simp add: redirect_target_def replace_installer_exe_def)
next
  assume "platform \<noteq> ''win32''"
  then show "redirect_target platform loc = loc"
    by (simp add: redirect_target_def)
next
  assume "server url = Inr r \<and> location r = Some loc \<and> loc \<noteq> []"
  then show "download (Suc n) platform server url
        = (url # fst (download n platform server (redirect_target platform loc)),
           snd (download n platform server (redirect_target platform loc)))"
    by (simp add: truthy_def split: prod.splits)
qed

theorem redirect_rewriting_witness:
  "redirect_target ''win32'' ''https://host/firefox.win64.installer.exe'' = ''https://host/firefox.win64.zip''
   \<and> redirect_target ''linux'' ''https://host/firefox.tar.bz2'' = ''https://host/firefox.tar.bz2''
   \<and> redirect_target ''darwin'' ''https://host/firefox.win64.installer.exe''
       = ''https://host/firefox.win64.installer.exe''
   \<and> fst (download 2 ''win32''
           (\<lambda>u. if u = ''start'' then Inr \<lparr> location = Some ''https://host/firefox.win64.installer.exe'', content_type = None \<rparr>
                else Inr \<lparr> location = None, content_type = Some ''application/zip'' \<rparr>) ''start'')
       = [''start'', ''https://host/firefox.win64.zip'']"
proof -
  have e: "endsWith ''https://host/firefox.win64.installer.exe'' ''.installer.exe''"
    by (simp add: endsWith_def)
  have n: "\<not> endsWith ''https://host/firefox.tar.bz2'' ''.installer.exe''"
    by (simp add: endsWith_def)
  have d: "''darwin'' \<noteq> ''win32''" by simp
  note t1 = redirect_rewriting [of "''https://host/firefox.win64.installer.exe''" "''darwin''"]
  note t2 = redirect_rewriting [of "''https://host/firefox.tar.bz2''" "''linux''"]
  from t1 e have a: "redirect_target ''win32'' ''https://host/firefox.win64.installer.exe'' = ''https://host/firefox.win64.zip''"
    by auto
  from t2 n have b: "redirect_target ''linux'' ''https://host/firefox.tar.bz2'' = ''https://host/firefox.tar.bz2''"
    by blast
  from t1 d have c: "redirect_target ''darwin'' ''https://host/firefox.win64.installer.exe''
       = ''https://host/firefox.win64.installer.exe''" by blast
  have f: "fst (download 2 ''win32''
           (\<lambda>u. if u = ''start'' then Inr \<lparr> location = Some ''https://host/firefox.win64.installer.exe'', content_type = None \<rparr>
                else Inr \<lparr> location = None, content_type = Some ''application/zip'' \<rparr>) ''start'')
       = [''start'', ''https://host/firefox.win64.zip'']"
    by (simp add: numeral_2_eq_2 truthy_def a)
  from a b c f show ?thesis by blast
qed

subsection \<open>The version check\<close>

lemma strict_eq_iff: "strict_eq a b \<longleftrightarrow> a = b"
  by (cases a; cases b) simp_all

text \<open>
  In postinstall.js the check never resolves with \<^verbatim>\<open>true\<close>: the comparison of lines
  120-121 stands behind \<^verbatim>\<open>JSON.parse(response)\<close>, which throws.
\<close>

lemma checkForUpdate_never_true:
  "decision (checkForUpdate url stored remote) \<noteq> Fulfilled (Some True)"
proof (cases "truthy url")
  case False
  then show ?thesis by (simp add: checkForUpdate_def)
next
  case True
  show ?thesis
  proof (cases "case stored of Unreadable e \<Rightarrow> Object [] | Content c \<Rightarrow> c")
    case Unparsable
    with True show ?thesis
      by (cases stored) (simp_all add: checkForUpdate_def)
  next
    case (Object old)
    with True show ?thesis
      by (cases remote; cases stored)
         (simp_all add: checkForUpdate_def JSON_parse_response_def settle_def)
  qed
qed

text \<open>
  C1, as stated, fails: the claim wants the decision to be false whenever a field is
  missing from one or both descriptors. In the older script a missing version record
  (the empty stored descriptor) and a fetched descriptor without the two fields are up
  to date, and so are two descriptors that agree on \<^verbatim>\<open>buildid\<close> and both lack
  \<^verbatim>\<open>target_alias\<close>: \<^verbatim>\<open>undefined === undefined\<close> holds.
\<close>

theorem up_to_date_counterexample:
  "field [] ''buildid'' = None \<and> field [] ''target_alias'' = None
   \<and> isUpToDate [] []
   \<and> decision (checkForUpdate_old (Some ''https://host/info.json'') (Unreadable (SystemError ''ENOENT''))
         (Answer (Object []))) = Fulfilled (Some True)
   \<and> field [(''buildid'', ''X'')] ''target_alias'' = None
   \<and> isUpToDate [(''buildid'', ''X'')] [(''buildid'', ''X'')]
   \<and> decision (checkForUpdate_old (Some ''https://host/info.json'') (Content (Object [(''buildid'', ''X'')]))
         (Answer (Object [(''buildid'', ''X'')]))) = Fulfilled (Some True)"
  by (simp add: field_def isUpToDate_def checkForUpdate_old_def truthy_def)

text \<open>
  C1, amended. The condition both scripts evaluate holds exactly when \<^verbatim>\<open>buildid\<close>
  and \<^verbatim>\<open>target_alias\<close> are strictly equal between the stored and the fetched
  descriptor, where a field a descriptor lacks reads as \<^verbatim>\<open>undefined\<close>; a field that
  one descriptor has and the other lacks makes it false. In the older script the check
  resolves with \<^verbatim>\<open>true\<close> exactly when the condition holds, the stored descriptor
  being the empty one when the version record cannot be read.
\<close>

theorem up_to_date_decision:
  "(isUpToDate current old \<longleftrightarrow>
      field current ''buildid'' = field old ''buildid''
      \<and> field current ''target_alias'' = field old ''target_alias'')
   \<and> (truthy url \<longrightarrow>
        (decision (checkForUpdate_old url (Content (Object old)) (Answer (Object current))) = Fulfilled (Some True))
        = isUpToDate current old)
   \<and> (truthy url \<longrightarrow>
        (decision (checkForUpdate_old url (Unreadable e) (Answer (Object current))) = Fulfilled (Some True))
        = isUpToDate current [])
   \<and> ((name = ''buildid'' \<or> name = ''target_alias'')
        \<and> (field current name = None) \<noteq> (field old name = None)
        \<longrightarrow> \<not> isUpToDate current old)"
  by (auto simp: isUpToDate_def strict_eq_iff checkForUpdate_old_def)

theorem up_to_date_decision_witness:
  "decision (checkForUpdate_old (Some ''https://host/info.json'')
       (Content (Object [(''buildid'', ''X''), (''target_alias'', ''Y'')]))
       (Answer (Object [(''target_alias'', ''Y''), (''moz_pkg_platform'', ''linux64''), (''buildid'', ''X'')])))
     = Fulfilled (Some True)
   \<and> \<not> isUpToDate [(''buildid'', ''X''), (''target_alias'', ''Y'')] [(''buildid'', ''X'')]"
proof -
  have t: "truthy (Some ''https://host/info.json'')" by (simp add: truthy_def)
  have m: "(field [(''buildid'', ''X''), (''target_alias'', ''Y'')] ''target_alias'' = None)
           \<noteq> (field [(''buildid'', ''X'')] ''target_alias'' = None)"
    by (simp add: field_def)
  have "isUpToDate [(''target_alias'', ''Y''), (''moz_pkg_platform'', ''linux64''), (''buildid'', ''X'')]
          [(''buildid'', ''X''), (''target_alias'', ''Y'')]"
    using up_to_date_decision
      [of "[(''target_alias'', ''Y''), (''moz_pkg_platform'', ''linux64''), (''buildid'', ''X'')]"
          "[(''buildid'', ''X''), (''target_alias'', ''Y'')]"]
    by (simp add: field_def)
  moreover note up_to_date_decision
      [of "[(''target_alias'', ''Y''), (''moz_pkg_platform'', ''linux64''), (''buildid'', ''X'')]"
          "[(''buildid'', ''X''), (''target_alias'', ''Y'')]" "Some ''https://host/info.json''"]
  moreover note up_to_date_decision
      [of "[(''buildid'', ''X''), (''target_alias'', ''Y'')]" "[(''buildid'', ''X'')]" _ _ "''target_alias''"]
  ultimately show ?thesis using t m by blast
qed




subsection \<open>The platform constants\<close>

text \<open>
  C2, as stated, fails. A platform the switch does not name (here FreeBSD) is not
  rejected: \<^verbatim>\<open>DOWNLOAD_OS\<close> is \<^verbatim>\<open>undefined\<close>, the info URL is
  \<^verbatim>\<open>undefined\<close> and the script goes on with the generic download URL. And the
  older script throws on an unknown architecture only after it has created the output
  directory and the temporary workspace.
\<close>

theorem unsupported_platform_counterexample:
  "\<not> supported ''freebsd'' ''x64''
   \<and> resolvePlatformProfile ''freebsd'' ''x64''
       = ([], Inr \<lparr> download_os = None, info_url = None,
                    bin_url = ''https://download.mozilla.org/?product=firefox-nightly-latest-ssl&lang=en-US&os=undefined'',
                    install_root = [''dist'', ''freebsd'', ''runtime''],
                    resources = [''dist'', ''freebsd'', ''runtime''],
                    executables = [''dist'', ''freebsd'', ''runtime''] \<rparr>)
   \<and> resolvePlatformProfile_old ''win32'' ''arm''
       = ([EnsureDirSync [''dist''], MkdtempSync, ConsoleLog],
          Inl (Error ''unsupported Windows architecture arm''))"
  by (simp add: supported_def resolvePlatformProfile_def resolvePlatformProfile_old_def DOWNLOAD_OS_def
      DOWNLOAD_INFO_URL_def DOWNLOAD_URL_def DOWNLOAD_INFO_URLS_def DOWNLOAD_BIN_URLS_def property_def
      or_else_def interpolate_def DOWNLOAD_LOCALE_def installDir_def resourcesDir_def executableDir_def
      distDir_def DIST_DIR_def)

lemma DOWNLOAD_OS_supported:
  "supported p a \<Longrightarrow> \<exists>os. DOWNLOAD_OS p a = Inr (Some os) \<and> os \<in> {''win'', ''win64'', ''linux'', ''linux64'', ''osx''}"
  by (auto simp: supported_def DOWNLOAD_OS_def)

lemma info_url_known:
  "os \<in> {''win'', ''win64'', ''linux'', ''linux64'', ''osx''} \<Longrightarrow> truthy (DOWNLOAD_INFO_URL (Some os))"
  by (auto simp: DOWNLOAD_INFO_URL_def DOWNLOAD_INFO_URLS_def property_def truthy_def archive_0402_10_def archive_0402_03_def)

lemma bin_url_nonempty: "DOWNLOAD_URL os \<noteq> []"
  by (auto simp: DOWNLOAD_URL_def or_else_def split: option.splits)

lemma or_else_truthy: "truthy a \<Longrightarrow> truthy (Some (or_else a b))"
  by (auto simp: truthy_def or_else_def split: option.splits)

text \<open>
  C2, amended. For the pairs the switch names (Windows or Linux with \<^verbatim>\<open>ia32\<close> or
  \<^verbatim>\<open>x64\<close>, macOS with any architecture) the constants are all populated; for
  Windows or Linux with any other architecture an Error is thrown. In postinstall.js no
  filesystem or network action comes before either; in the older script the output
  directory and the temporary workspace are created first, and no network action comes
  before either.
\<close>

theorem resolve_profile:
  "(supported p a \<longrightarrow>
      (\<exists>prof. resolvePlatformProfile p a = ([], Inr prof) \<and> populated prof)
      \<and> (\<exists>prof. resolvePlatformProfile_old p a = ([EnsureDirSync DIST_DIR, MkdtempSync, ConsoleLog], Inr prof)
                  \<and> populated prof))
   \<and> ((p = ''win32'' \<or> p = ''linux'') \<and> a \<noteq> ''ia32'' \<and> a \<noteq> ''x64'' \<longrightarrow>
      (\<exists>msg. resolvePlatformProfile p a = ([], Inl (Error msg))
             \<and> resolvePlatformProfile_old p a
                 = ([EnsureDirSync DIST_DIR, MkdtempSync, ConsoleLog], Inl (Error msg))))
   \<and> \<not> list_ex is_net_event (fst (resolvePlatformProfile p a))
   \<and> \<not> list_ex is_fs_event (fst (resolvePlatformProfile p a))
   \<and> \<not> list_ex is_net_event (fst (resolvePlatformProfile_old p a))"
proof (intro conjI impI)
  assume s: "supported p a"
  then obtain os where os: "DOWNLOAD_OS p a = Inr (Some os)"
      "os \<in> {''win'', ''win64'', ''linux'', ''linux64'', ''osx''}"
    using DOWNLOAD_OS_supported by blast
  show "\<exists>prof. resolvePlatformProfile p a = ([], Inr prof) \<and> populated prof"
    using os info_url_known[OF os(2)] bin_url_nonempty
    by (simp add: resolvePlatformProfile_def populated_def installDir_def resourcesDir_def
        executableDir_def distDir_def)
  show "\<exists>prof. resolvePlatformProfile_old p a = ([EnsureDirSync DIST_DIR, MkdtempSync, ConsoleLog], Inr prof)
                  \<and> populated prof"
    using os or_else_truthy[OF info_url_known[OF os(2)]] bin_url_nonempty
    by (simp add: resolvePlatformProfile_old_def populated_def installDir_old_def resourcesDir_old_def
        executableDir_old_def DIST_DIR_def)
next
  assume "(p = ''win32'' \<or> p = ''linux'') \<and> a \<noteq> ''ia32'' \<and> a \<noteq> ''x64''"
  then show "\<exists>msg. resolvePlatformProfile p a = ([], Inl (Error msg))
             \<and> resolvePlatformProfile_old p a
                 = ([EnsureDirSync DIST_DIR, MkdtempSync, ConsoleLog], Inl (Error msg))"
    by (auto simp: resolvePlatformProfile_def resolvePlatformProfile_old_def DOWNLOAD_OS_def)
next
  show "\<not> list_ex is_net_event (fst (resolvePlatformProfile p a))"
    by (simp add: resolvePlatformProfile_def split: sum.splits)
  show "\<not> list_ex is_fs_event (fst (resolvePlatformProfile p a))"
    by (simp add: resolvePlatformProfile_def split: sum.splits)
  show "\<not> list_ex is_net_event (fst (resolvePlatformProfile_old p a))"
    by (simp add: resolvePlatformProfile_old_def Let_def split: sum.splits)
qed

theorem resolve_profile_witness:
  "(\<exists>prof. resolvePlatformProfile ''linux'' ''x64'' = ([], Inr prof) \<and> populated prof)
   \<and> (\<exists>msg. resolvePlatformProfile ''win32'' ''arm'' = ([], Inl (Error msg)))"
proof -
  have s: "supported ''linux'' ''x64''" by (simp add: supported_def)
  have u: "(''win32'' = ''win32'' \<or> ''win32'' = ''linux'') \<and> ''arm'' \<noteq> ''ia32'' \<and> ''arm'' \<noteq> ''x64''"
    by simp
  from resolve_profile [of "''linux''" "''x64''"] s
  have a: "\<exists>prof. resolvePlatformProfile ''linux'' ''x64'' = ([], Inr prof) \<and> populated prof"
    by blast
  from resolve_profile [of "''win32''" "''arm''"] u
  have b: "\<exists>msg. resolvePlatformProfile ''win32'' ''arm'' = ([], Inl (Error msg))"
    by blast
  from a b show ?thesis by blast
qed

subsection \<open>The companion application\<close>

text \<open>
  C10. With the feature flag enabled, as the module has it, \<open>install\<close> never resolves:
  its promise is rejected on every input, and when the target directory and the seven
  copies succeed it is rejected with the ReferenceError for \<^verbatim>\<open>OPENVR_DLL_URL\<close>,
  after the copies and before any request.
\<close>

theorem install_never_resolves:
  "OPENVR_ENABLED
   \<and> (\<exists>e. fst (install OPENVR_ENABLED platform io) = Rejected e)
   \<and> (ensureDir_error io = None \<and> (\<forall>f \<in> set xulapp_files. copy_error io [f] = None) \<longrightarrow>
        install OPENVR_ENABLED platform io
        = (Rejected (ReferenceError ''OPENVR_DLL_URL''),
           EnsureDir (resourcesDir platform @ [''qbrt''])
           # map (\<lambda>f. Copy [f] (resourcesDir platform @ [''qbrt'', f])) xulapp_files))"
proof (intro conjI impI)
  show "OPENVR_ENABLED" by (simp add: OPENVR_ENABLED_def)
  have r: "reference xulapp_constants ''OPENVR_DLL_URL'' = Inl (ReferenceError ''OPENVR_DLL_URL'')"
    by (simp add: reference_def xulapp_constants_def)
  show "\<exists>e. fst (install OPENVR_ENABLED platform io) = Rejected e"
    by (simp add: install_def OPENVR_ENABLED_def r Let_def split: option.splits)
  assume ok: "ensureDir_error io = None \<and> (\<forall>f \<in> set xulapp_files. copy_error io [f] = None)"
  then have "List.find (\<lambda>file. copy_error io [file] \<noteq> None) xulapp_files = None"
    by (simp add: find_None_iff)
  with ok show "install OPENVR_ENABLED platform io
        = (Rejected (ReferenceError ''OPENVR_DLL_URL''),
           EnsureDir (resourcesDir platform @ [''qbrt''])
           # map (\<lambda>f. Copy [f] (resourcesDir platform @ [''qbrt'', f])) xulapp_files)"
    by (simp add: install_def OPENVR_ENABLED_def r Let_def)
qed

theorem install_never_resolves_witness:
  "install OPENVR_ENABLED ''linux''
     \<lparr> ensureDir_error = None, copy_error = (\<lambda>p. None), openvr_error = None \<rparr>
   = (Rejected (ReferenceError ''OPENVR_DLL_URL''),
      [EnsureDir [''dist'', ''linux'', ''runtime'', ''qbrt''],
       Copy [''application.ini''] [''dist'', ''linux'', ''runtime'', ''qbrt'', ''application.ini''],
       Copy [''chrome''] [''dist'', ''linux'', ''runtime'', ''qbrt'', ''chrome''],
       Copy [''chrome.manifest''] [''dist'', ''linux'', ''runtime'', ''qbrt'', ''chrome.manifest''],
       Copy [''components''] [''dist'', ''linux'', ''runtime'', ''qbrt'', ''components''],
       Copy [''defaults''] [''dist'', ''linux'', ''runtime'', ''qbrt'', ''defaults''],
       Copy [''devtools.manifest''] [''dist'', ''linux'', ''runtime'', ''qbrt'', ''devtools.manifest''],
       Copy [''modules''] [''dist'', ''linux'', ''runtime'', ''qbrt'', ''modules'']])"
  using install_never_resolves
    [of "''linux''" "\<lparr> ensureDir_error = None, copy_error = (\<lambda>p. None), openvr_error = None \<rparr>"]
  by (simp add: xulapp_files_def resourcesDir_def installDir_def distDir_def OPENVR_ENABLED_def)

subsection \<open>The filesystem and the install step\<close>

lemma under_append [simp]: "under root (root @ rel)"
  by (simp add: under_def)





lemma map_of_prefixed_outside:
  "\<not> under dest p \<Longrightarrow> map_of (map (\<lambda>(rel, c). (dest @ rel, c)) es) p = None"
  by (induction es) (auto simp: under_def)





























text \<open>
  Why the condition of C9 on a call with \<^verbatim>\<open>filePath\<close> set is needed on Windows and
  Linux: the install step removes the install tree but not an extracted
  \<^verbatim>\<open>firefox\<close> directory left beside it, and the archive is expanded over such a
  directory. (The scripts never make such a call: they run the install step while
  \<^verbatim>\<open>filePath\<close> is \<^verbatim>\<open>undefined\<close>.)
\<close>

lemma stale_extracted_directory_example:
  "files_after (install_linux [''dist'', ''linux''] (Some [''tmp'', ''runtime.tar.bz2''])
       \<lparr> remove_error = None, decompress_error = None,
         entries = [([''firefox'', ''firefox-bin''], ''new'')],
         attach = Exited 0, detach = Exited 0, volume = [] \<rparr>
       [([''dist'', ''linux'', ''firefox'', ''stale.txt''], ''old'')])
     = [([''dist'', ''linux'', ''runtime'', ''firefox-bin''], ''new''),
        ([''dist'', ''linux'', ''runtime'', ''stale.txt''], ''old'')]
   \<and> files_after (install_linux [''dist'', ''linux''] (Some [''tmp'', ''runtime.tar.bz2''])
       \<lparr> remove_error = None, decompress_error = None,
         entries = [([''firefox'', ''firefox-bin''], ''new'')],
         attach = Exited 0, detach = Exited 0, volume = [] \<rparr>
       [([''dist'', ''linux'', ''runtime'', ''firefox-bin''], ''new''),
        ([''dist'', ''linux'', ''runtime'', ''stale.txt''], ''old'')])
     = [([''dist'', ''linux'', ''runtime'', ''firefox-bin''], ''new'')]"
  by (simp add: install_linux_def decompress_def write_entries_def removeF_def renameF_def
      exists_under_def under_def reroot_def Let_def)



subsection \<open>One run\<close>

lemma linux_profile:
  "resolvePlatformProfile ''linux'' ''x64''
   = ([], Inr \<lparr> download_os = Some ''linux64'',
                info_url = DOWNLOAD_INFO_URL (Some ''linux64''),
                bin_url = DOWNLOAD_URL (Some ''linux64''),
                install_root = [''dist'', ''linux'', ''runtime''],
                resources = [''dist'', ''linux'', ''runtime''],
                executables = [''dist'', ''linux'', ''runtime''] \<rparr>)"
  by (simp add: resolvePlatformProfile_def DOWNLOAD_OS_def installDir_def resourcesDir_def
      executableDir_def distDir_def)

lemma linux_info_url: "truthy (DOWNLOAD_INFO_URL (Some ''linux64''))"
  by (simp add: DOWNLOAD_INFO_URL_def DOWNLOAD_INFO_URLS_def property_def truthy_def archive_0402_10_def)

lemma linux_executor:
  "remove_error io = None \<Longrightarrow>
   installRuntime_executor ''linux'' tmp None io files
   = \<lparr> at_once = [Spinner Installing, RemoveSync (Some [''dist'', ''linux'', ''runtime'']),
                   Decompress None [''dist'', ''linux'']],
       afterwards = [],
       files_after = removeF [''dist'', ''linux'', ''runtime''] files,
       thrown = None,
       returned = Some (Rejected (TypeError ''Input file required'')) \<rparr>"
  by (simp add: installRuntime_executor_def install_linux_def decompress_def distDir_def Let_def)

lemma win32_profile:
  "resolvePlatformProfile ''win32'' ''x64''
   = ([], Inr \<lparr> download_os = Some ''win64'',
                info_url = DOWNLOAD_INFO_URL (Some ''win64''),
                bin_url = DOWNLOAD_URL (Some ''win64''),
                install_root = [''dist'', ''win32'', ''runtime''],
                resources = [''dist'', ''win32'', ''runtime''],
                executables = [''dist'', ''win32'', ''runtime''] \<rparr>)"
  by (simp add: resolvePlatformProfile_def DOWNLOAD_OS_def installDir_def resourcesDir_def
      executableDir_def distDir_def)

lemma win32_info_url: "truthy (DOWNLOAD_INFO_URL (Some ''win64''))"
  by (simp add: DOWNLOAD_INFO_URL_def DOWNLOAD_INFO_URLS_def property_def truthy_def archive_0402_03_def)

lemma win32_executor:
  "remove_error io = None \<Longrightarrow>
   installRuntime_executor ''win32'' tmp None io files
   = \<lparr> at_once = [Spinner Installing, RemoveAsync [''dist'', ''win32'', ''runtime'']],
       afterwards = [Decompress None [''dist'', ''win32'']],
       files_after = removeF [''dist'', ''win32'', ''runtime''] files,
       thrown = None,
       returned = Some (Rejected (TypeError ''Input file required'')) \<rparr>"
  by (simp add: installRuntime_executor_def install_win32_def decompress_def distDir_def Let_def)

lemma second_chain_pending: "second_chain platform tmp file stream io Pending = (Pending, [])"
  by (simp add: second_chain_def then_step_def catch_step_def)

text \<open>
  C4 fails on the code. On Linux the removal of the install tree and the call of
  \<^verbatim>\<open>decompress\<close> are actions of the module's evaluation: they come before any
  callback, while the version check is pending and before any request, and
  \<^verbatim>\<open>decompress\<close> is handed the \<^verbatim>\<open>undefined\<close> \<^verbatim>\<open>filePath\<close>. On Windows
  the removal is started during the module's evaluation in the same way.
\<close>

theorem install_step_runs_at_startup:
  "startup (run (w\<lparr> process_platform := ''linux'', process_arch := ''x64'',
                    install_answers := (install_answers w)\<lparr> remove_error := None \<rparr> \<rparr>))
   = [Spinner SettingUp, EnsureDirSync [''dist'', ''linux''], MkdtempSync,
      Spinner Checking, ReadFile [''dist'', ''linux'', ''runtime-info.json''],
      Spinner Installing, RemoveSync (Some [''dist'', ''linux'', ''runtime'']),
      Decompress None [''dist'', ''linux'']]
   \<and> decision_at_startup (DOWNLOAD_INFO_URL (Some ''linux64'')) = Pending
   \<and> startup (run (w\<lparr> process_platform := ''win32'', process_arch := ''x64'',
                    install_answers := (install_answers w)\<lparr> remove_error := None \<rparr> \<rparr>))
   = [Spinner SettingUp, EnsureDirSync [''dist'', ''win32''], MkdtempSync,
      Spinner Checking, ReadFile [''dist'', ''win32'', ''runtime-info.json''],
      Spinner Installing, RemoveAsync [''dist'', ''win32'', ''runtime'']]
   \<and> decision_at_startup (DOWNLOAD_INFO_URL (Some ''win64'')) = Pending"
  by (simp add: run_def linux_profile linux_info_url linux_executor win32_profile win32_info_url
      win32_executor check_executor_def decision_at_startup_def distDir_def runtimeInfo_def Let_def)

lemma announce_throws: "\<exists>e. announce prefix info = Inl e"
  by (cases info) (simp_all add: announce_def cli_spinner_def)

lemma first_chain_actions:
  "set (snd (first_chain c dl)) \<subseteq> set (actions c) \<union> {Spinner CheckFailed} \<union> range ConsoleError"
proof -
  obtain e1 where e1: "announce AlreadyLatest (currentInfo c) = Inl e1"
    using announce_throws by blast
  obtain e2 where e2: "announce NewVersion (currentInfo c) = Inl e2"
    using announce_throws by blast
  show ?thesis
    by (cases "decision c") (auto simp: first_chain_def e1 e2)
qed

lemma checkForUpdate_actions:
  "set (actions (checkForUpdate url stored remote)) \<subseteq> range HttpsGet"
proof (cases "truthy url")
  case False
  then show ?thesis by (simp add: checkForUpdate_def)
next
  case True
  show ?thesis
  proof (cases "case stored of Unreadable e \<Rightarrow> Object [] | Content c \<Rightarrow> c")
    case Unparsable
    with True show ?thesis by (simp add: checkForUpdate_def)
  next
    case (Object old)
    with True show ?thesis
      by (cases remote) (simp_all add: checkForUpdate_def JSON_parse_response_def)
  qed
qed

lemma first_chain_no_exit:
  "ProcessExit \<notin> set (snd (first_chain (checkForUpdate url stored remote) dl))"
  "RmdirSync t' \<notin> set (snd (first_chain (checkForUpdate url stored remote) dl))"
  using first_chain_actions[of "checkForUpdate url stored remote" dl]
    checkForUpdate_actions[of url stored remote]
  by auto

lemma executor_not_thrown:
  "p \<noteq> ''linux'' \<or> remove_error io = None \<Longrightarrow> thrown (installRuntime_executor p t f io fs) = None"
  by (auto simp: installRuntime_executor_def install_win32_def install_linux_def install_darwin_def
      copy_bundle_def Let_def split: option.splits sum.splits exit_status.splits)

lemma executor_no_cleanup:
  "ProcessExit \<notin> set (at_once (installRuntime_executor p t f io fs))"
  "ProcessExit \<notin> set (afterwards (installRuntime_executor p t f io fs))"
  "RmdirSync x \<notin> set (at_once (installRuntime_executor p t f io fs))"
  "RmdirSync x \<notin> set (afterwards (installRuntime_executor p t f io fs))"
  by (auto simp: installRuntime_executor_def install_win32_def install_linux_def install_darwin_def
      copy_bundle_def Let_def split: option.splits sum.splits exit_status.splits)

lemma check_executor_no_cleanup:
  "ProcessExit \<notin> set (check_executor r u)" "RmdirSync x \<notin> set (check_executor r u)"
  by (simp_all add: check_executor_def)

text \<open>
  C5 fails on the code. The promise of line 201 is settled only when its executor
  throws; on Windows and macOS it never does, and on Linux it does not when the removal
  succeeds. The chain behind it then stays pending: the clean-up never runs, the
  temporary directory is never removed and \<^verbatim>\<open>process.exit\<close> is never called.
\<close>

theorem cleanup_skipped:
  "(process_platform w = ''win32'' \<or> process_platform w = ''darwin''
    \<or> (process_platform w = ''linux'' \<and> remove_error (install_answers w) = None)) \<longrightarrow>
     ended (run w) = Pending
     \<and> ProcessExit \<notin> set (startup (run w) @ first_actions (run w) @ second_actions (run w))
     \<and> RmdirSync (temp_dir w) \<notin> set (startup (run w) @ first_actions (run w) @ second_actions (run w))"
proof
  assume h: "process_platform w = ''win32'' \<or> process_platform w = ''darwin''
    \<or> (process_platform w = ''linux'' \<and> remove_error (install_answers w) = None)"
  then have t: "thrown (installRuntime_executor (process_platform w) (temp_dir w) None
                   (install_answers w) (disk w)) = None"
    by (intro executor_not_thrown) auto
  obtain before res where r: "resolvePlatformProfile (process_platform w) (process_arch w) = (before, res)"
    by (cases "resolvePlatformProfile (process_platform w) (process_arch w)")
  then have b: "before = []"
    by (auto simp: resolvePlatformProfile_def split: sum.splits)
  show "ended (run w) = Pending
     \<and> ProcessExit \<notin> set (startup (run w) @ first_actions (run w) @ second_actions (run w))
     \<and> RmdirSync (temp_dir w) \<notin> set (startup (run w) @ first_actions (run w) @ second_actions (run w))"
  proof (cases res)
    case (Inl e)
    with r b show ?thesis by (simp add: run_def)
  next
    case (Inr prof)
    with r b t show ?thesis
      by (simp add: run_def Let_def promise_of_executor_def second_chain_pending
          executor_no_cleanup check_executor_no_cleanup first_chain_no_exit)
  qed
qed

theorem cleanup_skipped_witness:
  "ended (run \<lparr> process_platform = ''linux'', process_arch = ''x64'', temp_dir = [''tmp'', ''qbrt-Ab12Cd''],
       disk = [], version_record = Unreadable (SystemError ''ENOENT''),
       metadata_answer = Answer (Object [(''buildid'', ''X''), (''target_alias'', ''Y'')]),
       binary_server = (\<lambda>u. Inr \<lparr> location = None, content_type = Some ''application/x-tar'' \<rparr>),
       redirect_fuel = 10, pipe_outcome = Finished,
       install_answers = \<lparr> remove_error = None, decompress_error = None, entries = [], attach = Exited 0, detach = Exited 0,
                           volume = [] \<rparr>,
       later_answers = \<lparr> graft = \<lparr> ensureDir_error = None, copy_error = (\<lambda>p. None), openvr_error = None \<rparr>,
                         extract_error = None, copySync_error = (\<lambda>p. None), plist_error = None,
                         cleanup_remove_error = None, cleanup_rmdir_error = None \<rparr> \<rparr>) = Pending"
  using cleanup_skipped
    [of "\<lparr> process_platform = ''linux'', process_arch = ''x64'', temp_dir = [''tmp'', ''qbrt-Ab12Cd''],
       disk = [], version_record = Unreadable (SystemError ''ENOENT''),
       metadata_answer = Answer (Object [(''buildid'', ''X''), (''target_alias'', ''Y'')]),
       binary_server = (\<lambda>u. Inr \<lparr> location = None, content_type = Some ''application/x-tar'' \<rparr>),
       redirect_fuel = 10, pipe_outcome = Finished,
       install_answers = \<lparr> remove_error = None, decompress_error = None, entries = [], attach = Exited 0, detach = Exited 0,
                           volume = [] \<rparr>,
       later_answers = \<lparr> graft = \<lparr> ensureDir_error = None, copy_error = (\<lambda>p. None), openvr_error = None \<rparr>,
                         extract_error = None, copySync_error = (\<lambda>p. None), plist_error = None,
                         cleanup_remove_error = None, cleanup_rmdir_error = None \<rparr> \<rparr>"]
  by simp

lemma tree_removeF: "tree root (removeF root files) = (\<lambda>rel. None)"
  by (induction files) (auto simp: tree_def lookup_def removeF_def under_def fun_eq_iff)

text \<open>
  C6 fails on the code. On Linux (and on Windows) the install tree is removed by the
  install function that the module's evaluation runs, whatever it held and whatever the
  version check will find, and \<^verbatim>\<open>process.exit\<close> is never reached. With a stored
  descriptor and any fetched document, the same one included, the first chain requests
  the metadata and nothing else, but \<^verbatim>\<open>JSON.parse(response)\<close> throws and the chain
  reports that the check failed, not that the runtime is up to date.
\<close>

theorem up_to_date_run_removes_tree:
  "RemoveSync (Some [''dist'', ''linux'', ''runtime''])
     \<in> set (startup (run (w\<lparr> process_platform := ''linux'', process_arch := ''x64'',
                        install_answers := (install_answers w)\<lparr> remove_error := None \<rparr> \<rparr>)))
   \<and> tree [''dist'', ''linux'', ''runtime'']
         (files_end (run (w\<lparr> process_platform := ''linux'', process_arch := ''x64'',
                        install_answers := (install_answers w)\<lparr> remove_error := None \<rparr> \<rparr>)))
       = (\<lambda>rel. None)
   \<and> ended (run (w\<lparr> process_platform := ''linux'', process_arch := ''x64'',
                        install_answers := (install_answers w)\<lparr> remove_error := None \<rparr> \<rparr>)) = Pending
   \<and> tree [''dist'', ''win32'', ''runtime'']
         (files_end (run (w\<lparr> process_platform := ''win32'', process_arch := ''x64'',
                        install_answers := (install_answers w)\<lparr> remove_error := None \<rparr> \<rparr>)))
       = (\<lambda>rel. None)
   \<and> first_actions (run (w\<lparr> process_platform := ''linux'', process_arch := ''x64'',
                        version_record := Content (Object d), metadata_answer := Answer body,
                        install_answers := (install_answers w)\<lparr> remove_error := None \<rparr> \<rparr>))
       = [HttpsGet (the (DOWNLOAD_INFO_URL (Some ''linux64''))), Spinner CheckFailed,
          ConsoleError SyntaxError]"
  by (simp add: run_def linux_profile linux_info_url linux_executor win32_profile win32_info_url
      win32_executor Let_def checkForUpdate_def JSON_parse_response_def settle_def
      first_chain_def tree_removeF promise_of_executor_def second_chain_pending check_executor_def)

lemma darwin_profile:
  "resolvePlatformProfile ''darwin'' a
   = ([], Inr \<lparr> download_os = Some ''osx'',
                info_url = DOWNLOAD_INFO_URL (Some ''osx''),
                bin_url = DOWNLOAD_URL (Some ''osx''),
                install_root = [''dist'', ''darwin'', ''Runtime.app''],
                resources = [''dist'', ''darwin'', ''Runtime.app'', ''Contents'', ''Resources''],
                executables = [''dist'', ''darwin'', ''Runtime.app'', ''Contents'', ''MacOS''] \<rparr>)"
  by (simp add: resolvePlatformProfile_def DOWNLOAD_OS_def installDir_def resourcesDir_def
      executableDir_def distDir_def)

lemma darwin_info_url: "truthy (DOWNLOAD_INFO_URL (Some ''osx''))"
  by (simp add: DOWNLOAD_INFO_URL_def DOWNLOAD_INFO_URLS_def property_def truthy_def archive_0402_03_def)

text \<open>
  C7 fails on the code in its last part. On macOS, when \<^verbatim>\<open>hdiutil attach\<close> exits
  with a nonzero code, the chain the install function returned is rejected with an error
  that carries the code, nothing is copied and the files stay as they were; a nonzero
  code of \<^verbatim>\<open>hdiutil detach\<close> is an error of the same kind. But nothing is chained on
  that rejection: the second chain stays pending and the clean-up does not run.
\<close>

theorem attach_failure:
  "code \<noteq> 0 \<longrightarrow>
     dropped (run (w\<lparr> process_platform := ''darwin'',
                      install_answers := (install_answers w)\<lparr> attach := Exited code \<rparr> \<rparr>))
       = Some (Rejected (ExitError ''hdiutil attach'' code))
     \<and> startup (run (w\<lparr> process_platform := ''darwin'',
                      install_answers := (install_answers w)\<lparr> attach := Exited code \<rparr> \<rparr>))
       = [Spinner SettingUp, EnsureDirSync [''dist'', ''darwin''], MkdtempSync,
          Spinner Checking, ReadFile [''dist'', ''darwin'', ''runtime-info.json''],
          Spinner Installing, HdiutilAttach None (temp_dir w @ [''volume''])]
     \<and> second_actions (run (w\<lparr> process_platform := ''darwin'',
                      install_answers := (install_answers w)\<lparr> attach := Exited code \<rparr> \<rparr>)) = []
     \<and> files_end (run (w\<lparr> process_platform := ''darwin'',
                      install_answers := (install_answers w)\<lparr> attach := Exited code \<rparr> \<rparr>)) = disk w
     \<and> ended (run (w\<lparr> process_platform := ''darwin'',
                      install_answers := (install_answers w)\<lparr> attach := Exited code \<rparr> \<rparr>)) = Pending
     \<and> after_detach (Exited code) = Rejected (ExitError ''hdiutil detach'' code)"
  by (simp add: run_def darwin_profile darwin_info_url Let_def installRuntime_executor_def
      install_darwin_def promise_of_executor_def second_chain_pending check_executor_def
      distDir_def runtimeInfo_def after_detach_def)

theorem attach_failure_witness:
  "dropped (run \<lparr> process_platform = ''darwin'', process_arch = ''x64'', temp_dir = [''tmp'', ''qbrt-Ab12Cd''],
       disk = [([''dist'', ''darwin'', ''Runtime.app'', ''Contents'', ''Info.plist''], ''plist'')],
       version_record = Unreadable (SystemError ''ENOENT''),
       metadata_answer = Answer (Object [(''buildid'', ''X''), (''target_alias'', ''Y'')]),
       binary_server = (\<lambda>u. Inr \<lparr> location = None, content_type = Some ''application/x-apple-diskimage'' \<rparr>),
       redirect_fuel = 10, pipe_outcome = Finished,
       install_answers = \<lparr> remove_error = None, decompress_error = None, entries = [], attach = Exited 1, detach = Exited 0,
                           volume = [] \<rparr>,
       later_answers = \<lparr> graft = \<lparr> ensureDir_error = None, copy_error = (\<lambda>p. None), openvr_error = None \<rparr>,
                         extract_error = None, copySync_error = (\<lambda>p. None), plist_error = None,
                         cleanup_remove_error = None, cleanup_rmdir_error = None \<rparr> \<rparr>)
   = Some (Rejected (ExitError ''hdiutil attach'' 1))"
  using attach_failure
    [of 1 "\<lparr> process_platform = ''darwin'', process_arch = ''x64'', temp_dir = [''tmp'', ''qbrt-Ab12Cd''],
       disk = [([''dist'', ''darwin'', ''Runtime.app'', ''Contents'', ''Info.plist''], ''plist'')],
       version_record = Unreadable (SystemError ''ENOENT''),
       metadata_answer = Answer (Object [(''buildid'', ''X''), (''target_alias'', ''Y'')]),
       binary_server = (\<lambda>u. Inr \<lparr> location = None, content_type = Some ''application/x-apple-diskimage'' \<rparr>),
       redirect_fuel = 10, pipe_outcome = Finished,
       install_answers = \<lparr> remove_error = None, decompress_error = None, entries = [], attach = Exited 1, detach = Exited 0,
                           volume = [] \<rparr>,
       later_answers = \<lparr> graft = \<lparr> ensureDir_error = None, copy_error = (\<lambda>p. None), openvr_error = None \<rparr>,
                         extract_error = None, copySync_error = (\<lambda>p. None), plist_error = None,
                         cleanup_remove_error = None, cleanup_rmdir_error = None \<rparr> \<rparr>"]
  by simp

end
